theory Spec2Isabelle
  imports Complex_Main
begin

section \<open>Values, errors and the object store\<close>

text \<open>
  The module \<^verbatim>\<open>components.py\<close> is Python 3 (\<^verbatim>\<open>super()\<close> without arguments, so \<^verbatim>\<open>1 / 10\<close>
  is true division). Objects are mutable and are shared through the \<^verbatim>\<open>parent\<close>
  back-references, so they live in a store that maps addresses to objects; an attribute
  assignment is an update of the store.

  Numbers are idealised as reals: a Python \<^verbatim>\<open>int\<close> or \<^verbatim>\<open>float\<close> attribute is a
  \<open>real\<close>, rounding is not modelled. A numeric attribute is \<open>None\<close> until it is set, as
  the constructors' defaults make it. The embedding covers the objects the module's own
  constructors and \<^verbatim>\<open>add\<close> methods build; \<^verbatim>\<open>modify\<close>, which can store a value of any type
  under any attribute name, is outside it.
\<close>

type_synonym addr = nat

text \<open>What a caller can pass as a temperature variation: a number, a tuple, or \<^verbatim>\<open>None\<close>.\<close>

datatype pyval = VNum real | VTuple "pyval list" | VNone

datatype error = TypeError | ZeroDivisionError | AttributeError | ValueError

text \<open>The classes derived from \<^verbatim>\<open>MaterialCollection\<close>, and the base class itself.\<close>

datatype cls = MaterialCollection | Opening | Roof | Floor | Wall

record material =
  parent_m :: "addr option"
  thermal_conductivity :: "real option"
  thickness :: "real option"

record collection =
  parent_c :: "addr option"
  surface :: "real option"
  materials :: "addr list"

record side =
  parent_s :: "addr option"
  height :: "real option"
  wall :: "addr option"
  openings :: "addr list"

record building =
  width :: "real option"
  length_b :: "real option"
  roof :: "addr option"
  side_b :: "addr option"
  floor_b :: "addr option"

datatype obj =
    OMaterial material
  | OCollection cls collection
  | OSide side
  | OBuilding building

type_synonym heap = "addr \<Rightarrow> obj option"

text \<open>\<^verbatim>\<open>isinstance(child, C)\<close> for the leaf classes the module tests against. None of them
  has a subclass, so the test is on the object's own class.\<close>

definition isinstance :: "heap \<Rightarrow> addr \<Rightarrow> cls \<Rightarrow> bool" where
  "isinstance h a k = (case h a of Some (OCollection k' c) \<Rightarrow> k' = k | _ \<Rightarrow> False)"

definition isinstance_Side :: "heap \<Rightarrow> addr \<Rightarrow> bool" where
  "isinstance_Side h a = (case h a of Some (OSide s) \<Rightarrow> True | _ \<Rightarrow> False)"

text \<open>\<^verbatim>\<open>child.parent = p\<close>. A \<^verbatim>\<open>Building\<close> has no \<^verbatim>\<open>parent\<close> attribute of its own; Python
  would create one, which no method reads, and the store leaves the building as it is.\<close>

definition set_parent :: "heap \<Rightarrow> addr \<Rightarrow> addr option \<Rightarrow> heap" where
  "set_parent h a p =
     (case h a of
        Some (OMaterial m) \<Rightarrow> h(a \<mapsto> OMaterial (m\<lparr>parent_m := p\<rparr>))
      | Some (OCollection k c) \<Rightarrow> h(a \<mapsto> OCollection k (c\<lparr>parent_c := p\<rparr>))
      | Some (OSide s) \<Rightarrow> h(a \<mapsto> OSide (s\<lparr>parent_s := p\<rparr>))
      | _ \<Rightarrow> h)"

text \<open>Reading \<^verbatim>\<open>x.parent\<close>, \<^verbatim>\<open>x.materials\<close>, \<^verbatim>\<open>x.openings\<close> and the slots from the store.\<close>

definition parent_of :: "heap \<Rightarrow> addr \<Rightarrow> addr option" where
  "parent_of h a =
     (case h a of
        Some (OMaterial m) \<Rightarrow> parent_m m
      | Some (OCollection k c) \<Rightarrow> parent_c c
      | Some (OSide s) \<Rightarrow> parent_s s
      | _ \<Rightarrow> None)"

definition materials_of :: "heap \<Rightarrow> addr \<Rightarrow> addr list" where
  "materials_of h a = (case h a of Some (OCollection k c) \<Rightarrow> materials c | _ \<Rightarrow> [])"

definition surface_of :: "heap \<Rightarrow> addr \<Rightarrow> real option" where
  "surface_of h a = (case h a of Some (OCollection k c) \<Rightarrow> surface c | _ \<Rightarrow> None)"

definition openings_of :: "heap \<Rightarrow> addr \<Rightarrow> addr list" where
  "openings_of h a = (case h a of Some (OSide s) \<Rightarrow> openings s | _ \<Rightarrow> [])"

definition wall_of :: "heap \<Rightarrow> addr \<Rightarrow> addr option" where
  "wall_of h a = (case h a of Some (OSide s) \<Rightarrow> wall s | _ \<Rightarrow> None)"

definition roof_of :: "heap \<Rightarrow> addr \<Rightarrow> addr option" where
  "roof_of h a = (case h a of Some (OBuilding b) \<Rightarrow> roof b | _ \<Rightarrow> None)"

definition side_of :: "heap \<Rightarrow> addr \<Rightarrow> addr option" where
  "side_of h a = (case h a of Some (OBuilding b) \<Rightarrow> side_b b | _ \<Rightarrow> None)"

definition floor_of :: "heap \<Rightarrow> addr \<Rightarrow> addr option" where
  "floor_of h a = (case h a of Some (OBuilding b) \<Rightarrow> floor_b b | _ \<Rightarrow> None)"


section \<open>Insulance\<close>

text \<open>\<^verbatim>\<open>Material.calculate_thermal_conductivity_insulance\<close>:
  \<^verbatim>\<open>return self.thickness / self.thermal_conductivity\<close>. An unset operand is a
  \<^verbatim>\<open>TypeError\<close>, a zero conductivity a \<^verbatim>\<open>ZeroDivisionError\<close>.\<close>

definition Material_calculate_thermal_conductivity_insulance :: "material \<Rightarrow> error + real" where
  "Material_calculate_thermal_conductivity_insulance m =
     (case thickness m of
        None \<Rightarrow> Inl TypeError
      | Some t \<Rightarrow>
          (case thermal_conductivity m of
             None \<Rightarrow> Inl TypeError
           | Some k \<Rightarrow> if k = 0 then Inl ZeroDivisionError else Inr (t / k)))"

text \<open>The loop of \<^verbatim>\<open>MaterialCollection.calculate_thermal_conductivity_insulance\<close>, with the
  running total as accumulator. \<^verbatim>\<open>add\<close> documents its argument as a \<^verbatim>\<open>Material\<close>; an
  element of any other class has no business here and is reported as the
  \<^verbatim>\<open>AttributeError\<close> a \<^verbatim>\<open>Side\<close> or a \<^verbatim>\<open>Building\<close> in that place would raise.\<close>

fun insulance_loop :: "heap \<Rightarrow> addr list \<Rightarrow> real \<Rightarrow> error + real" where
  "insulance_loop h [] acc = Inr acc"
| "insulance_loop h (a # as) acc =
     (case h a of
        Some (OMaterial m) \<Rightarrow>
          (case Material_calculate_thermal_conductivity_insulance m of
             Inl e \<Rightarrow> Inl e
           | Inr r \<Rightarrow> insulance_loop h as (acc + r))
      | _ \<Rightarrow> Inl AttributeError)"

definition MaterialCollection_calculate_thermal_conductivity_insulance ::
    "heap \<Rightarrow> collection \<Rightarrow> error + real" where
  "MaterialCollection_calculate_thermal_conductivity_insulance h c =
     insulance_loop h (materials c) 0"

text \<open>\<^verbatim>\<open>MaterialCollection.calculate_thermal_insulance\<close> and its override in \<^verbatim>\<open>Floor\<close>.\<close>

definition MaterialCollection_calculate_thermal_insulance ::
    "heap \<Rightarrow> collection \<Rightarrow> error + real" where
  "MaterialCollection_calculate_thermal_insulance h c =
     (case MaterialCollection_calculate_thermal_conductivity_insulance h c of
        Inl e \<Rightarrow> Inl e
      | Inr thermal_conductivity_insulance \<Rightarrow>
          Inr (thermal_conductivity_insulance + 1 / 10 + 1 / 80))"

definition Floor_calculate_thermal_insulance :: "heap \<Rightarrow> collection \<Rightarrow> error + real" where
  "Floor_calculate_thermal_insulance h c =
     (case MaterialCollection_calculate_thermal_conductivity_insulance h c of
        Inl e \<Rightarrow> Inl e
      | Inr thermal_conductivity_insulance \<Rightarrow> Inr (thermal_conductivity_insulance + 1 / 10))"

text \<open>\<^verbatim>\<open>self.calculate_thermal_insulance()\<close>: the method of the object's class.\<close>

definition calculate_thermal_insulance :: "heap \<Rightarrow> cls \<Rightarrow> collection \<Rightarrow> error + real" where
  "calculate_thermal_insulance h k c =
     (case k of
        Floor \<Rightarrow> Floor_calculate_thermal_insulance h c
      | _ \<Rightarrow> MaterialCollection_calculate_thermal_insulance h c)"


section \<open>Flux of a collection\<close>

text \<open>\<^verbatim>\<open>temperature_variation / insulance\<close> with a float on the right: a left operand that
  is no number is a \<^verbatim>\<open>TypeError\<close> whatever the right one is.\<close>

definition py_truediv :: "pyval \<Rightarrow> real \<Rightarrow> error + real" where
  "py_truediv v r =
     (case v of
        VNum x \<Rightarrow> if r = 0 then Inl ZeroDivisionError else Inr (x / r)
      | _ \<Rightarrow> Inl TypeError)"

text \<open>\<^verbatim>\<open>MaterialCollection.calculate_flux_surface\<close>: the insulance is computed first, then
  the division is attempted.\<close>

definition calculate_flux_surface :: "heap \<Rightarrow> cls \<Rightarrow> collection \<Rightarrow> pyval \<Rightarrow> error + real" where
  "calculate_flux_surface h k c temperature_variation =
     (case calculate_thermal_insulance h k c of
        Inl e \<Rightarrow> Inl e
      | Inr r \<Rightarrow> py_truediv temperature_variation r)"

text \<open>\<^verbatim>\<open>MaterialCollection.calculate_flux\<close>:
  \<^verbatim>\<open>return self.calculate_flux_surface(temperature_variation) * self.surface\<close>.\<close>

definition MaterialCollection_calculate_flux ::
    "heap \<Rightarrow> cls \<Rightarrow> collection \<Rightarrow> pyval \<Rightarrow> error + real" where
  "MaterialCollection_calculate_flux h k c temperature_variation =
     (case calculate_flux_surface h k c temperature_variation of
        Inl e \<Rightarrow> Inl e
      | Inr q \<Rightarrow> (case surface c of None \<Rightarrow> Inl TypeError | Some s \<Rightarrow> Inr (q * s)))"

text \<open>\<^verbatim>\<open>self.parent.width * self.parent.length\<close>, as \<^verbatim>\<open>Roof\<close> and \<^verbatim>\<open>Floor\<close> compute it.\<close>

definition parent_footprint :: "heap \<Rightarrow> addr option \<Rightarrow> error + real" where
  "parent_footprint h p =
     (case p of
        None \<Rightarrow> Inl AttributeError
      | Some b \<Rightarrow>
          (case h b of
             Some (OBuilding bd) \<Rightarrow>
               (case width bd of
                  None \<Rightarrow> Inl TypeError
                | Some w \<Rightarrow>
                    (case length_b bd of None \<Rightarrow> Inl TypeError | Some l \<Rightarrow> Inr (w * l)))
           | _ \<Rightarrow> Inl AttributeError))"

text \<open>\<^verbatim>\<open>Roof.calculate_flux(self, *args)\<close>: stores the footprint as surface, then calls
  \<^verbatim>\<open>super().calculate_flux(args)\<close>, which hands the tuple \<^verbatim>\<open>args\<close> itself to the base
  method as its temperature variation.\<close>

definition Roof_calculate_flux :: "heap \<Rightarrow> addr \<Rightarrow> pyval list \<Rightarrow> (error + real) \<times> heap" where
  "Roof_calculate_flux h self args =
     (case h self of
        Some (OCollection k c) \<Rightarrow>
          (case parent_footprint h (parent_c c) of
             Inl e \<Rightarrow> (Inl e, h)
           | Inr a \<Rightarrow>
               (let c' = c\<lparr>surface := Some a\<rparr>;
                    h' = h(self \<mapsto> OCollection k c')
                in (MaterialCollection_calculate_flux h' k c' (VTuple args), h')))
      | _ \<Rightarrow> (Inl AttributeError, h))"

text \<open>\<^verbatim>\<open>Floor.calculate_flux(self, temperature_variation=0)\<close>: the same derivation, and the
  argument itself goes to the base method.\<close>

definition Floor_calculate_flux :: "heap \<Rightarrow> addr \<Rightarrow> pyval \<Rightarrow> (error + real) \<times> heap" where
  "Floor_calculate_flux h self temperature_variation =
     (case h self of
        Some (OCollection k c) \<Rightarrow>
          (case parent_footprint h (parent_c c) of
             Inl e \<Rightarrow> (Inl e, h)
           | Inr a \<Rightarrow>
               (let c' = c\<lparr>surface := Some a\<rparr>;
                    h' = h(self \<mapsto> OCollection k c')
                in (MaterialCollection_calculate_flux h' k c' temperature_variation, h')))
      | _ \<Rightarrow> (Inl AttributeError, h))"

text \<open>\<^verbatim>\<open>x.calculate_flux(temperature_variation)\<close> on a collection object \<open>x\<close>: the method of
  its class. \<^verbatim>\<open>Roof.calculate_flux\<close> receives the argument as the one-element tuple
  \<^verbatim>\<open>args\<close>; \<^verbatim>\<open>Opening\<close> and \<^verbatim>\<open>Wall\<close> inherit the base method, which writes nothing.\<close>

definition calculate_flux :: "heap \<Rightarrow> addr \<Rightarrow> pyval \<Rightarrow> (error + real) \<times> heap" where
  "calculate_flux h a temperature_variation =
     (case h a of
        Some (OCollection Roof c) \<Rightarrow> Roof_calculate_flux h a [temperature_variation]
      | Some (OCollection Floor c) \<Rightarrow> Floor_calculate_flux h a temperature_variation
      | Some (OCollection k c) \<Rightarrow> (MaterialCollection_calculate_flux h k c temperature_variation, h)
      | _ \<Rightarrow> (Inl AttributeError, h))"


section \<open>Side\<close>

text \<open>\<^verbatim>\<open>[opening.surface for opening in self.openings]\<close>.\<close>

fun openings_surfaces :: "heap \<Rightarrow> addr list \<Rightarrow> error + real option list" where
  "openings_surfaces h [] = Inr []"
| "openings_surfaces h (a # as) =
     (case h a of
        Some (OCollection k c) \<Rightarrow>
          (case openings_surfaces h as of
             Inl e \<Rightarrow> Inl e
           | Inr xs \<Rightarrow> Inr (surface c # xs))
      | _ \<Rightarrow> Inl AttributeError)"

text \<open>The builtin \<^verbatim>\<open>sum\<close>: starts from 0 and adds from the left; adding \<^verbatim>\<open>None\<close> is a
  \<^verbatim>\<open>TypeError\<close>.\<close>

fun py_sum :: "real option list \<Rightarrow> real \<Rightarrow> error + real" where
  "py_sum [] acc = Inr acc"
| "py_sum (None # xs) acc = Inl TypeError"
| "py_sum (Some x # xs) acc = py_sum xs (acc + x)"

text \<open>The right-hand side
  \<^verbatim>\<open>2*self.height*(self.parent.width+self.parent.length) - sum(openings_surfaces)\<close>,
  its operands evaluated from the left.\<close>

definition wall_surface :: "heap \<Rightarrow> side \<Rightarrow> real option list \<Rightarrow> error + real" where
  "wall_surface h s surfs =
     (case height s of
        None \<Rightarrow> Inl TypeError
      | Some hgt \<Rightarrow>
          (case parent_s s of
             None \<Rightarrow> Inl AttributeError
           | Some b \<Rightarrow>
               (case h b of
                  Some (OBuilding bd) \<Rightarrow>
                    (case width bd of
                       None \<Rightarrow> Inl TypeError
                     | Some w \<Rightarrow>
                         (case length_b bd of
                            None \<Rightarrow> Inl TypeError
                          | Some l \<Rightarrow>
                              (case py_sum surfs 0 of
                                 Inl e \<Rightarrow> Inl e
                               | Inr t \<Rightarrow> Inr (2 * hgt * (w + l) - t))))
                | _ \<Rightarrow> Inl AttributeError)))"

text \<open>The loop \<^verbatim>\<open>for opening in self.openings: flux += opening.calculate_flux(...)\<close>.\<close>

fun flux_loop :: "heap \<Rightarrow> addr list \<Rightarrow> pyval \<Rightarrow> real \<Rightarrow> (error + real) \<times> heap" where
  "flux_loop h [] tv flux = (Inr flux, h)"
| "flux_loop h (a # as) tv flux =
     (case calculate_flux h a tv of
        (Inl e, h') \<Rightarrow> (Inl e, h')
      | (Inr f, h') \<Rightarrow> flux_loop h' as tv (flux + f))"

text \<open>\<^verbatim>\<open>Side.calculate_flux\<close>. The wall's surface is assigned before any flux is computed
  and stays assigned when a later step raises.\<close>

definition Side_calculate_flux :: "heap \<Rightarrow> addr \<Rightarrow> pyval \<Rightarrow> (error + real) \<times> heap" where
  "Side_calculate_flux h self temperature_variation =
     (case h self of
        Some (OSide s) \<Rightarrow>
          (case openings_surfaces h (openings s) of
             Inl e \<Rightarrow> (Inl e, h)
           | Inr surfs \<Rightarrow>
               (case wall_surface h s surfs of
                  Inl e \<Rightarrow> (Inl e, h)
                | Inr a \<Rightarrow>
                    (case wall s of
                       None \<Rightarrow> (Inl AttributeError, h)
                     | Some w \<Rightarrow>
                         (case h w of
                            Some (OCollection k c) \<Rightarrow>
                              (let h1 = h(w \<mapsto> OCollection k (c\<lparr>surface := Some a\<rparr>))
                               in (case calculate_flux h1 w temperature_variation of
                                     (Inl e, h2) \<Rightarrow> (Inl e, h2)
                                   | (Inr f, h2) \<Rightarrow>
                                       flux_loop h2 (openings_of h2 self)
                                         temperature_variation (0 + f)))
                          | _ \<Rightarrow> (Inl AttributeError, h)))))
      | _ \<Rightarrow> (Inl AttributeError, h))"


section \<open>Building\<close>

text \<open>\<^verbatim>\<open>Building.calculate_flux(temperature_inside=20, temperature_outside=10,
  temperature_underground=15)\<close>. An argument the caller leaves out is \<open>None\<close> here and
  takes its default.\<close>

definition Building_calculate_flux ::
    "heap \<Rightarrow> addr \<Rightarrow> real option \<Rightarrow> real option \<Rightarrow> real option \<Rightarrow> (error + real) \<times> heap" where
  "Building_calculate_flux h self inside outside underground =
     (let temperature_inside = (case inside of None \<Rightarrow> 20 | Some t \<Rightarrow> t);
          temperature_outside = (case outside of None \<Rightarrow> 10 | Some t \<Rightarrow> t);
          temperature_underground = (case underground of None \<Rightarrow> 15 | Some t \<Rightarrow> t);
          temperature_between_in_and_out = \<bar>temperature_inside - temperature_outside\<bar>;
          temperature_between_in_and_underground =
            \<bar>temperature_inside - temperature_underground\<bar>
      in (case roof_of h self of
            None \<Rightarrow> (Inl AttributeError, h)
          | Some r \<Rightarrow>
              (case calculate_flux h r (VNum temperature_between_in_and_out) of
                 (Inl e, h1) \<Rightarrow> (Inl e, h1)
               | (Inr fr, h1) \<Rightarrow>
                   (case side_of h1 self of
                      None \<Rightarrow> (Inl AttributeError, h1)
                    | Some sd \<Rightarrow>
                        (case Side_calculate_flux h1 sd (VNum temperature_between_in_and_out) of
                           (Inl e, h2) \<Rightarrow> (Inl e, h2)
                         | (Inr fs, h2) \<Rightarrow>
                             (case floor_of h2 self of
                                None \<Rightarrow> (Inl AttributeError, h2)
                              | Some fl \<Rightarrow>
                                  (case calculate_flux h2 fl
                                          (VNum temperature_between_in_and_underground) of
                                     (Inl e, h3) \<Rightarrow> (Inl e, h3)
                                   | (Inr ff, h3) \<Rightarrow> (Inr (0 + fr + fs + ff), h3))))))))"


section \<open>Attaching and detaching children\<close>

text \<open>\<^verbatim>\<open>MaterialCollection.add\<close>: \<^verbatim>\<open>self.materials.append(child); child.parent = self\<close>.\<close>

definition MaterialCollection_add :: "heap \<Rightarrow> addr \<Rightarrow> addr \<Rightarrow> error + heap" where
  "MaterialCollection_add h self child =
     (case h self of
        Some (OCollection k c) \<Rightarrow>
          Inr (set_parent (h(self \<mapsto> OCollection k (c\<lparr>materials := materials c @ [child]\<rparr>)))
                 child (Some self))
      | _ \<Rightarrow> Inl AttributeError)"

text \<open>\<^verbatim>\<open>MaterialCollection.remove\<close>: \<^verbatim>\<open>list.remove\<close> deletes the first occurrence and raises
  \<^verbatim>\<open>ValueError\<close> when there is none, before anything is written.\<close>

definition MaterialCollection_remove :: "heap \<Rightarrow> addr \<Rightarrow> addr \<Rightarrow> error + heap" where
  "MaterialCollection_remove h self child =
     (case h self of
        Some (OCollection k c) \<Rightarrow>
          if child \<in> set (materials c)
          then Inr (set_parent
                      (h(self \<mapsto> OCollection k (c\<lparr>materials := remove1 child (materials c)\<rparr>)))
                      child None)
          else Inl ValueError
      | _ \<Rightarrow> Inl AttributeError)"

text \<open>\<^verbatim>\<open>Side.add\<close> and \<^verbatim>\<open>Side.remove\<close>: an \<^verbatim>\<open>if isinstance ... elif isinstance ...\<close> chain with
  no \<^verbatim>\<open>else\<close>.\<close>

definition Side_add :: "heap \<Rightarrow> addr \<Rightarrow> addr \<Rightarrow> error + heap" where
  "Side_add h self child =
     (case h self of
        Some (OSide s) \<Rightarrow>
          if isinstance h child Wall
          then Inr (set_parent (h(self \<mapsto> OSide (s\<lparr>wall := Some child\<rparr>))) child (Some self))
          else if isinstance h child Opening
          then Inr (set_parent (h(self \<mapsto> OSide (s\<lparr>openings := openings s @ [child]\<rparr>)))
                      child (Some self))
          else Inr h
      | _ \<Rightarrow> Inl AttributeError)"

definition Side_remove :: "heap \<Rightarrow> addr \<Rightarrow> addr \<Rightarrow> error + heap" where
  "Side_remove h self child =
     (case h self of
        Some (OSide s) \<Rightarrow>
          if isinstance h child Wall
          then Inr (set_parent (h(self \<mapsto> OSide (s\<lparr>wall := None\<rparr>))) child None)
          else if isinstance h child Opening
          then (if child \<in> set (openings s)
                then Inr (set_parent
                            (h(self \<mapsto> OSide (s\<lparr>openings := remove1 child (openings s)\<rparr>)))
                            child None)
                else Inl ValueError)
          else Inr h
      | _ \<Rightarrow> Inl AttributeError)"

text \<open>\<^verbatim>\<open>Building.add\<close> and \<^verbatim>\<open>Building.remove\<close>.\<close>

definition Building_add :: "heap \<Rightarrow> addr \<Rightarrow> addr \<Rightarrow> error + heap" where
  "Building_add h self child =
     (case h self of
        Some (OBuilding b) \<Rightarrow>
          if isinstance h child Roof
          then Inr (set_parent (h(self \<mapsto> OBuilding (b\<lparr>roof := Some child\<rparr>))) child (Some self))
          else if isinstance_Side h child
          then Inr (set_parent (h(self \<mapsto> OBuilding (b\<lparr>side_b := Some child\<rparr>))) child (Some self))
          else if isinstance h child Floor
          then Inr (set_parent (h(self \<mapsto> OBuilding (b\<lparr>floor_b := Some child\<rparr>))) child (Some self))
          else Inr h
      | _ \<Rightarrow> Inl AttributeError)"

definition Building_remove :: "heap \<Rightarrow> addr \<Rightarrow> addr \<Rightarrow> error + heap" where
  "Building_remove h self child =
     (case h self of
        Some (OBuilding b) \<Rightarrow>
          if isinstance h child Roof
          then Inr (set_parent (h(self \<mapsto> OBuilding (b\<lparr>roof := None\<rparr>))) child None)
          else if isinstance_Side h child
          then Inr (set_parent (h(self \<mapsto> OBuilding (b\<lparr>side_b := None\<rparr>))) child None)
          else if isinstance h child Floor
          then Inr (set_parent (h(self \<mapsto> OBuilding (b\<lparr>floor_b := None\<rparr>))) child None)
          else Inr h
      | _ \<Rightarrow> Inl AttributeError)"


section \<open>A configured building\<close>

text \<open>
  The store after
  \<^verbatim>\<open>b = Building(5, 4, Roof([Material(0.5, 0.1)]),
                 Side(3, Wall([Material(0.5, 0.1)]), [o]), Floor([Material(0.5, 0.1)]))\<close>
  with \<^verbatim>\<open>o = Opening(2)\<close> holding one such material (addresses 0 to 9), and beside it
  unattached objects: a wall, an opening of surface 1, a material, a roof, a side, a floor
  (10 to 15), and a bare collection of surface 10 with the layers
  \<^verbatim>\<open>Material(0.5, 0.1)\<close> and \<^verbatim>\<open>Material(1.0, 0.05)\<close> (16 to 18).
\<close>

definition example_heap :: heap where
  "example_heap =
     [0 \<mapsto> OBuilding \<lparr>width = Some 5, length_b = Some 4, roof = Some 1, side_b = Some 2, floor_b = Some 3\<rparr>,
      1 \<mapsto> OCollection Roof \<lparr>parent_c = Some 0, surface = None, materials = [5]\<rparr>,
      2 \<mapsto> OSide \<lparr>parent_s = Some 0, height = Some 3, wall = Some 4, openings = [6]\<rparr>,
      3 \<mapsto> OCollection Floor \<lparr>parent_c = Some 0, surface = None, materials = [7]\<rparr>,
      4 \<mapsto> OCollection Wall \<lparr>parent_c = Some 2, surface = None, materials = [8]\<rparr>,
      5 \<mapsto> OMaterial \<lparr>parent_m = Some 1, thermal_conductivity = Some (1/2), thickness = Some (1/10)\<rparr>,
      6 \<mapsto> OCollection Opening \<lparr>parent_c = Some 2, surface = Some 2, materials = [9]\<rparr>,
      7 \<mapsto> OMaterial \<lparr>parent_m = Some 3, thermal_conductivity = Some (1/2), thickness = Some (1/10)\<rparr>,
      8 \<mapsto> OMaterial \<lparr>parent_m = Some 4, thermal_conductivity = Some (1/2), thickness = Some (1/10)\<rparr>,
      9 \<mapsto> OMaterial \<lparr>parent_m = Some 6, thermal_conductivity = Some (1/2), thickness = Some (1/10)\<rparr>,
      10 \<mapsto> OCollection Wall \<lparr>parent_c = None, surface = None, materials = []\<rparr>,
      11 \<mapsto> OCollection Opening \<lparr>parent_c = None, surface = Some 1, materials = []\<rparr>,
      12 \<mapsto> OMaterial \<lparr>parent_m = None, thermal_conductivity = Some (1/2), thickness = Some (1/10)\<rparr>,
      13 \<mapsto> OCollection Roof \<lparr>parent_c = None, surface = None, materials = []\<rparr>,
      14 \<mapsto> OSide \<lparr>parent_s = None, height = Some 2, wall = None, openings = []\<rparr>,
      15 \<mapsto> OCollection Floor \<lparr>parent_c = None, surface = None, materials = []\<rparr>,
      16 \<mapsto> OCollection MaterialCollection \<lparr>parent_c = None, surface = Some 10, materials = [17, 18]\<rparr>,
      17 \<mapsto> OMaterial \<lparr>parent_m = Some 16, thermal_conductivity = Some (1/2), thickness = Some (1/10)\<rparr>,
      18 \<mapsto> OMaterial \<lparr>parent_m = Some 16, thermal_conductivity = Some 1, thickness = Some (1/20)\<rparr>]"


section \<open>Properties\<close>

lemmas insulance_defs =
  MaterialCollection_calculate_thermal_insulance_def Floor_calculate_thermal_insulance_def
  calculate_thermal_insulance_def MaterialCollection_calculate_thermal_conductivity_insulance_def
  Material_calculate_thermal_conductivity_insulance_def

lemmas flux_defs =
  MaterialCollection_calculate_flux_def calculate_flux_surface_def py_truediv_def
  parent_footprint_def


subsection \<open>Conductive insulance\<close>

lemma insulance_loop_sum:
  assumes "map h as =
      map (\<lambda>(p, t, k). Some (OMaterial \<lparr>parent_m = p, thermal_conductivity = Some k,
                                        thickness = Some t\<rparr>)) ms"
    and "\<forall>(p, t, k) \<in> set ms. 0 < k"
  shows "insulance_loop h as acc = Inr (acc + sum_list (map (\<lambda>(p, t, k). t / k) ms))"
  using assms
proof (induction as arbitrary: ms acc)
  case Nil
  then show ?case by simp
next
  case (Cons a as)
  then obtain p t k ms' where ms: "ms = (p, t, k) # ms'"
    by (cases ms) auto
  with Cons.prems have ha: "h a = Some (OMaterial \<lparr>parent_m = p, thermal_conductivity = Some k,
                                        thickness = Some t\<rparr>)"
    and rest: "map h as = map (\<lambda>(p, t, k). Some (OMaterial \<lparr>parent_m = p,
        thermal_conductivity = Some k, thickness = Some t\<rparr>)) ms'"
    and k: "0 < k" and ks: "\<forall>(p, t, k) \<in> set ms'. 0 < k"
    by auto
  from Cons.IH [OF rest ks] ha k show ?case
    by (simp add: ms Material_calculate_thermal_conductivity_insulance_def add.assoc)
qed

text \<open>
  Claim C7. For a collection whose materials have thicknesses \<open>t\<^sub>i\<close> and positive
  conductivities \<open>k\<^sub>i\<close>, the conductive insulance is the sum of the \<open>t\<^sub>i / k\<^sub>i\<close>; for the
  empty collection it is 0.
\<close>

theorem conductive_insulance_additive:
  assumes "map h (materials c) =
      map (\<lambda>(p, t, k). Some (OMaterial \<lparr>parent_m = p, thermal_conductivity = Some k,
                                        thickness = Some t\<rparr>)) ms"
    and "\<forall>(p, t, k) \<in> set ms. 0 < k"
  shows "MaterialCollection_calculate_thermal_conductivity_insulance h c =
           Inr (sum_list (map (\<lambda>(p, t, k). t / k) ms))
         \<and> (materials c = [] \<longrightarrow>
              MaterialCollection_calculate_thermal_conductivity_insulance h c = Inr 0)"
  using insulance_loop_sum [OF assms, of 0]
  by (simp add: MaterialCollection_calculate_thermal_conductivity_insulance_def)

theorem conductive_insulance_additive_witness:
  "MaterialCollection_calculate_thermal_conductivity_insulance example_heap
     \<lparr>parent_c = None, surface = Some 10, materials = [17, 18]\<rparr> = Inr (1 / 4)
   \<and> MaterialCollection_calculate_thermal_conductivity_insulance example_heap
     \<lparr>parent_c = None, surface = None, materials = []\<rparr> = Inr 0"
  using conductive_insulance_additive [of example_heap
      "\<lparr>parent_c = None, surface = Some 10, materials = [17, 18]\<rparr>"
      "[(Some 16, 1 / 10, 1 / 2), (Some 16, 1 / 20, 1)]"]
    conductive_insulance_additive [of example_heap
      "\<lparr>parent_c = None, surface = None, materials = []\<rparr>" "[]"]
  by (simp add: example_heap_def)

subsection \<open>Thermal insulance\<close>

text \<open>
  Claim C6. Whenever the conductive insulance is \<open>ci\<close>, the thermal insulance of a
  collection is \<open>ci + 1/10 + 1/80\<close>, that is \<open>ci + 0.1 + 0.0125\<close>, for the base method and
  every class that inherits it, and \<open>ci + 1/10\<close> with no outdoor term for a floor.
\<close>

theorem thermal_insulance_composition:
  assumes "MaterialCollection_calculate_thermal_conductivity_insulance h c = Inr ci"
  shows "MaterialCollection_calculate_thermal_insulance h c = Inr (ci + 1 / 10 + 1 / 80)
       \<and> (k \<noteq> Floor \<longrightarrow> calculate_thermal_insulance h k c = Inr (ci + 0.1 + 0.0125))
       \<and> Floor_calculate_thermal_insulance h c = Inr (ci + 1 / 10)
       \<and> calculate_thermal_insulance h Floor c = Inr (ci + 0.1)"
  using assms
  by (cases k) (simp_all add: MaterialCollection_calculate_thermal_insulance_def
      Floor_calculate_thermal_insulance_def calculate_thermal_insulance_def)

theorem thermal_insulance_composition_witness:
  "calculate_thermal_insulance example_heap MaterialCollection
     \<lparr>parent_c = None, surface = Some 10, materials = [17, 18]\<rparr> = Inr 0.3625
   \<and> calculate_thermal_insulance example_heap Floor
     \<lparr>parent_c = Some 0, surface = None, materials = [7]\<rparr> = Inr 0.3"
proof -
  have a: "MaterialCollection_calculate_thermal_conductivity_insulance example_heap
     \<lparr>parent_c = None, surface = Some 10, materials = [17, 18]\<rparr> = Inr (1 / 4)"
    by (simp add: example_heap_def insulance_defs)
  have b: "MaterialCollection_calculate_thermal_conductivity_insulance example_heap
     \<lparr>parent_c = Some 0, surface = None, materials = [7]\<rparr> = Inr (1 / 5)"
    by (simp add: example_heap_def insulance_defs)
  show ?thesis
    using thermal_insulance_composition [OF a, of MaterialCollection]
      thermal_insulance_composition [OF b, of Floor]
    by simp
qed

subsection \<open>Roof and building flux\<close>

text \<open>A tuple is never divided: the base flux method raises on it, so the roof's flux
  method raises on every call, and the building's after it.\<close>

lemma tuple_flux_raises: "MaterialCollection_calculate_flux h k c (VTuple args) \<noteq> Inr x"
  by (simp add: MaterialCollection_calculate_flux_def calculate_flux_surface_def py_truediv_def
      split: sum.splits)

lemma Roof_calculate_flux_raises: "fst (Roof_calculate_flux h self args) \<noteq> Inr x"
  by (simp add: Roof_calculate_flux_def Let_def tuple_flux_raises
      split: option.splits obj.splits sum.splits)

lemma Building_calculate_flux_raises:
  assumes "roof_of h self = Some r" and "isinstance h r Roof"
  shows "fst (Building_calculate_flux h self inside outside underground) \<noteq> Inr x"
proof -
  define v where "v = VNum \<bar>(case inside of None \<Rightarrow> 20 | Some t \<Rightarrow> t)
                          - (case outside of None \<Rightarrow> 10 | Some t \<Rightarrow> t)\<bar>"
  obtain c where "h r = Some (OCollection Roof c)"
    using assms(2) by (auto simp: isinstance_def split: option.splits obj.splits)
  then have disp: "calculate_flux h r v = Roof_calculate_flux h r [v]"
    by (simp add: calculate_flux_def)
  obtain res h1 where r1: "Roof_calculate_flux h r [v] = (res, h1)"
    by (cases "Roof_calculate_flux h r [v]")
  with Roof_calculate_flux_raises [of h r "[v]"] obtain e where "res = Inl e"
    by (cases res) auto
  with r1 disp assms(1) show ?thesis
    by (simp add: Building_calculate_flux_def Let_def v_def)
qed

text \<open>
  Claim C1. The claim is that the roof's flux stores the footprint as surface and returns
  the base formula's value. On the configured building, with temperature variation 10,
  the surface 20 is stored and the call then raises \<^verbatim>\<open>TypeError\<close>; the base formula on
  that surface gives 640.
\<close>

theorem Roof_calculate_flux_example:
  "Roof_calculate_flux example_heap 1 [VNum 10] =
     (Inl TypeError,
      example_heap(1 \<mapsto> OCollection Roof \<lparr>parent_c = Some 0, surface = Some 20, materials = [5]\<rparr>))
   \<and> MaterialCollection_calculate_flux example_heap Roof
        \<lparr>parent_c = Some 0, surface = Some 20, materials = [5]\<rparr> (VNum 10) = Inr 640"
  by (simp add: example_heap_def Roof_calculate_flux_def insulance_defs flux_defs)

text \<open>
  Claim C2. The claim is that the building's flux returns the sum of the three parts.
  On the configured building the call raises \<^verbatim>\<open>TypeError\<close> in the roof's part, with the
  default temperatures and with the same ones passed, although the side's and the
  floor's parts are defined (1728 and 1000/3).
\<close>

theorem Building_calculate_flux_example:
  "fst (Building_calculate_flux example_heap 0 None None None) = Inl TypeError
   \<and> fst (Building_calculate_flux example_heap 0 (Some 20) (Some 10) (Some 15)) = Inl TypeError
   \<and> fst (Side_calculate_flux example_heap 2 (VNum \<bar>20 - 10\<bar>)) = Inr 1728
   \<and> fst (Floor_calculate_flux example_heap 3 (VNum \<bar>20 - 15\<bar>)) = Inr (1000 / 3)"
  by (simp add: example_heap_def Building_calculate_flux_def roof_of_def calculate_flux_def
      Roof_calculate_flux_def Floor_calculate_flux_def Side_calculate_flux_def wall_surface_def
      openings_of_def insulance_defs flux_defs)


subsection \<open>Attaching and detaching\<close>

text \<open>
  Claim C9. A child that is neither a wall nor an opening is ignored by a side's
  \<^verbatim>\<open>add\<close> and \<^verbatim>\<open>remove\<close>, and a child that is no roof, side or floor by a building's:
  no error is raised and the whole store, the composite included, is as before.
\<close>

theorem unaccepted_child_ignored:
  "(h self = Some (OSide s) \<and> \<not> isinstance h child Wall \<and> \<not> isinstance h child Opening
      \<longrightarrow> Side_add h self child = Inr h \<and> Side_remove h self child = Inr h)
   \<and> (h bself = Some (OBuilding b) \<and> \<not> isinstance h bchild Roof
        \<and> \<not> isinstance_Side h bchild \<and> \<not> isinstance h bchild Floor
      \<longrightarrow> Building_add h bself bchild = Inr h \<and> Building_remove h bself bchild = Inr h)"
  by (simp add: Side_add_def Side_remove_def Building_add_def Building_remove_def)

theorem unaccepted_child_ignored_witness:
  "Side_add example_heap 2 12 = Inr example_heap
   \<and> Side_remove example_heap 2 12 = Inr example_heap
   \<and> Building_add example_heap 0 10 = Inr example_heap
   \<and> Building_remove example_heap 0 10 = Inr example_heap"
proof -
  have s: "example_heap 2 =
      Some (OSide \<lparr>parent_s = Some 0, height = Some 3, wall = Some 4, openings = [6]\<rparr>)"
    by (simp add: example_heap_def)
  have b: "example_heap 0 = Some (OBuilding \<lparr>width = Some 5, length_b = Some 4,
      roof = Some 1, side_b = Some 2, floor_b = Some 3\<rparr>)"
    by (simp add: example_heap_def)
  have m: "\<not> isinstance example_heap 12 Wall" "\<not> isinstance example_heap 12 Opening"
    by (simp_all add: example_heap_def isinstance_def)
  have w: "\<not> isinstance example_heap 10 Roof" "\<not> isinstance_Side example_heap 10"
    "\<not> isinstance example_heap 10 Floor"
    by (simp_all add: example_heap_def isinstance_def isinstance_Side_def)
  show ?thesis
    using unaccepted_child_ignored [where h = example_heap and self = 2 and child = 12
        and bself = 0 and bchild = 10] s b m w
    by simp
qed

text \<open>
  Claim C10. When a side whose wall slot holds \<open>w1\<close> is given another wall \<open>w2\<close>, the
  slot holds \<open>w2\<close> and \<open>w2\<close> points back at the side; \<open>w1\<close> is untouched, so it still
  points at the side; the side's other fields and every other object are as before.
\<close>

theorem Side_add_second_wall:
  assumes "h self = Some (OSide s)" and "wall s = Some w1"
    and "h w1 = Some (OCollection Wall c1)" and "parent_c c1 = Some self"
    and "h w2 = Some (OCollection Wall c2)" and "w2 \<noteq> w1"
  shows "\<exists>h'. Side_add h self w2 = Inr h'
          \<and> h' self = Some (OSide (s\<lparr>wall := Some w2\<rparr>))
          \<and> h' w2 = Some (OCollection Wall (c2\<lparr>parent_c := Some self\<rparr>))
          \<and> h' w1 = h w1 \<and> parent_of h' w1 = Some self
          \<and> (\<forall>a. a \<noteq> self \<and> a \<noteq> w2 \<longrightarrow> h' a = h a)"
proof -
  have ne: "self \<noteq> w2" using assms(1,5) by auto
  have "Side_add h self w2 =
      Inr (h(self \<mapsto> OSide (s\<lparr>wall := Some w2\<rparr>),
             w2 \<mapsto> OCollection Wall (c2\<lparr>parent_c := Some self\<rparr>)))"
    using assms ne by (simp add: Side_add_def isinstance_def set_parent_def)
  moreover have "self \<noteq> w1" using assms(1,3) by auto
  ultimately show ?thesis
    using assms ne by (simp add: parent_of_def)
qed

theorem Side_add_second_wall_witness:
  "\<exists>h'. Side_add example_heap 2 10 = Inr h'
      \<and> wall_of h' 2 = Some 10 \<and> parent_of h' 10 = Some 2 \<and> parent_of h' 4 = Some 2
      \<and> openings_of h' 2 = [6] \<and> h' 4 = example_heap 4"
proof -
  have s: "example_heap 2 =
      Some (OSide \<lparr>parent_s = Some 0, height = Some 3, wall = Some 4, openings = [6]\<rparr>)"
    and w1: "example_heap 4 =
      Some (OCollection Wall \<lparr>parent_c = Some 2, surface = None, materials = [8]\<rparr>)"
    and w2: "example_heap 10 =
      Some (OCollection Wall \<lparr>parent_c = None, surface = None, materials = []\<rparr>)"
    by (simp_all add: example_heap_def)
  from Side_add_second_wall [OF s _ w1 _ w2]
  show ?thesis
    by (auto simp: wall_of_def parent_of_def openings_of_def)
qed

text \<open>
  Claim C5. A side's \<^verbatim>\<open>remove\<close> given any wall empties the wall slot and clears that
  wall's back-reference, whether or not it is the attached wall, and a building's
  \<^verbatim>\<open>remove\<close> does the same to the roof, side or floor slot. So removing a wall \<open>w\<close> other
  than the attached \<open>w1\<close> leaves \<open>w1\<close> pointing at a side that no longer holds it.
\<close>

theorem remove_empties_slot_for_any_instance:
  "(h self = Some (OSide s) \<and> h w = Some (OCollection Wall cw) \<longrightarrow>
      Side_remove h self w =
        Inr (h(self \<mapsto> OSide (s\<lparr>wall := None\<rparr>), w \<mapsto> OCollection Wall (cw\<lparr>parent_c := None\<rparr>))))
   \<and> (h self = Some (OSide s) \<and> h w = Some (OCollection Wall cw) \<and> wall s = Some w1
        \<and> w1 \<noteq> w \<and> h w1 = Some (OCollection Wall c1) \<and> parent_c c1 = Some self \<longrightarrow>
      (\<exists>h'. Side_remove h self w = Inr h' \<and> wall_of h' self = None
            \<and> parent_of h' w1 = Some self))
   \<and> (h bself = Some (OBuilding b) \<and> h r = Some (OCollection Roof cr) \<longrightarrow>
      Building_remove h bself r =
        Inr (h(bself \<mapsto> OBuilding (b\<lparr>roof := None\<rparr>), r \<mapsto> OCollection Roof (cr\<lparr>parent_c := None\<rparr>))))
   \<and> (h bself = Some (OBuilding b) \<and> h sd = Some (OSide s2) \<longrightarrow>
      Building_remove h bself sd =
        Inr (h(bself \<mapsto> OBuilding (b\<lparr>side_b := None\<rparr>), sd \<mapsto> OSide (s2\<lparr>parent_s := None\<rparr>))))
   \<and> (h bself = Some (OBuilding b) \<and> h f = Some (OCollection Floor cf) \<longrightarrow>
      Building_remove h bself f =
        Inr (h(bself \<mapsto> OBuilding (b\<lparr>floor_b := None\<rparr>), f \<mapsto> OCollection Floor (cf\<lparr>parent_c := None\<rparr>))))"
proof -
  have side: "Side_remove h self w =
        Inr (h(self \<mapsto> OSide (s\<lparr>wall := None\<rparr>), w \<mapsto> OCollection Wall (cw\<lparr>parent_c := None\<rparr>)))"
    if "h self = Some (OSide s)" "h w = Some (OCollection Wall cw)"
  proof -
    have "self \<noteq> w" using that by auto
    with that show ?thesis by (simp add: Side_remove_def isinstance_def set_parent_def)
  qed
  have stale: "\<exists>h'. Side_remove h self w = Inr h' \<and> wall_of h' self = None
            \<and> parent_of h' w1 = Some self"
    if "h self = Some (OSide s)" "h w = Some (OCollection Wall cw)" "w1 \<noteq> w"
      "h w1 = Some (OCollection Wall c1)" "parent_c c1 = Some self"
  proof -
    have "self \<noteq> w" using that by auto
    moreover have "self \<noteq> w1" using that by auto
    ultimately show ?thesis
      using side [OF that(1,2)] that by (simp add: wall_of_def parent_of_def)
  qed
  have bld: "Building_remove h bself r =
        Inr (h(bself \<mapsto> OBuilding (b\<lparr>roof := None\<rparr>), r \<mapsto> OCollection Roof (cr\<lparr>parent_c := None\<rparr>)))"
    if "h bself = Some (OBuilding b)" "h r = Some (OCollection Roof cr)"
  proof -
    have "bself \<noteq> r" using that by auto
    with that show ?thesis by (simp add: Building_remove_def isinstance_def set_parent_def)
  qed
  have bsd: "Building_remove h bself sd =
        Inr (h(bself \<mapsto> OBuilding (b\<lparr>side_b := None\<rparr>), sd \<mapsto> OSide (s2\<lparr>parent_s := None\<rparr>)))"
    if "h bself = Some (OBuilding b)" "h sd = Some (OSide s2)"
  proof -
    have "bself \<noteq> sd" using that by auto
    with that show ?thesis
      by (simp add: Building_remove_def isinstance_def isinstance_Side_def set_parent_def)
  qed
  have bfl: "Building_remove h bself f =
        Inr (h(bself \<mapsto> OBuilding (b\<lparr>floor_b := None\<rparr>), f \<mapsto> OCollection Floor (cf\<lparr>parent_c := None\<rparr>)))"
    if "h bself = Some (OBuilding b)" "h f = Some (OCollection Floor cf)"
  proof -
    have "bself \<noteq> f" using that by auto
    with that show ?thesis
      by (simp add: Building_remove_def isinstance_def isinstance_Side_def set_parent_def)
  qed
  show ?thesis using side stale bld bsd bfl by blast
qed

theorem remove_empties_slot_for_any_instance_witness:
  "Side_remove example_heap 2 10 =
     Inr (example_heap
           (2 \<mapsto> OSide \<lparr>parent_s = Some 0, height = Some 3, wall = None, openings = [6]\<rparr>,
            10 \<mapsto> OCollection Wall \<lparr>parent_c = None, surface = None, materials = []\<rparr>))
   \<and> (\<exists>h'. Side_remove example_heap 2 10 = Inr h' \<and> wall_of h' 2 = None
          \<and> parent_of h' 4 = Some 2)
   \<and> Building_remove example_heap 0 13 =
     Inr (example_heap
           (0 \<mapsto> OBuilding \<lparr>width = Some 5, length_b = Some 4, roof = None, side_b = Some 2,
                             floor_b = Some 3\<rparr>,
            13 \<mapsto> OCollection Roof \<lparr>parent_c = None, surface = None, materials = []\<rparr>))
   \<and> Building_remove example_heap 0 14 =
     Inr (example_heap
           (0 \<mapsto> OBuilding \<lparr>width = Some 5, length_b = Some 4, roof = Some 1, side_b = None,
                             floor_b = Some 3\<rparr>,
            14 \<mapsto> OSide \<lparr>parent_s = None, height = Some 2, wall = None, openings = []\<rparr>))
   \<and> Building_remove example_heap 0 15 =
     Inr (example_heap
           (0 \<mapsto> OBuilding \<lparr>width = Some 5, length_b = Some 4, roof = Some 1, side_b = Some 2,
                             floor_b = None\<rparr>,
            15 \<mapsto> OCollection Floor \<lparr>parent_c = None, surface = None, materials = []\<rparr>))"
proof -
  have s: "example_heap 2 =
      Some (OSide \<lparr>parent_s = Some 0, height = Some 3, wall = Some 4, openings = [6]\<rparr>)"
    and b: "example_heap 0 = Some (OBuilding \<lparr>width = Some 5, length_b = Some 4,
      roof = Some 1, side_b = Some 2, floor_b = Some 3\<rparr>)"
    and w1: "example_heap 4 =
      Some (OCollection Wall \<lparr>parent_c = Some 2, surface = None, materials = [8]\<rparr>)"
    and w: "example_heap 10 =
      Some (OCollection Wall \<lparr>parent_c = None, surface = None, materials = []\<rparr>)"
    and r: "example_heap 13 =
      Some (OCollection Roof \<lparr>parent_c = None, surface = None, materials = []\<rparr>)"
    and sd: "example_heap 14 =
      Some (OSide \<lparr>parent_s = None, height = Some 2, wall = None, openings = []\<rparr>)"
    and f: "example_heap 15 =
      Some (OCollection Floor \<lparr>parent_c = None, surface = None, materials = []\<rparr>)"
    by (simp_all add: example_heap_def)
  show ?thesis
    using remove_empties_slot_for_any_instance [where h = example_heap and self = 2
        and w = 10 and ?w1.0 = 4 and bself = 0 and r = 13 and sd = 14 and f = 15
        and s = "\<lparr>parent_s = Some 0, height = Some 3, wall = Some 4, openings = [6]\<rparr>"
        and cw = "\<lparr>parent_c = None, surface = None, materials = []\<rparr>"
        and ?c1.0 = "\<lparr>parent_c = Some 2, surface = None, materials = [8]\<rparr>"
        and b = "\<lparr>width = Some 5, length_b = Some 4, roof = Some 1, side_b = Some 2,
                  floor_b = Some 3\<rparr>"
        and cr = "\<lparr>parent_c = None, surface = None, materials = []\<rparr>"
        and ?s2.0 = "\<lparr>parent_s = None, height = Some 2, wall = None, openings = []\<rparr>"
        and cf = "\<lparr>parent_c = None, surface = None, materials = []\<rparr>"]
      s b w1 w r sd f
    by auto
qed

text \<open>
  Claim C4, as stated, asks every composite to fail with a not-found error on a child it
  does not own. The single slots have no membership test: on the configured building, the
  side holds wall 4 and removing the unattached wall 10 raises nothing, and the building
  holds roof 1 and removing the unattached roof 13 raises nothing.
\<close>

theorem remove_not_owned_slot_child_example:
  "isinstance example_heap 10 Wall \<and> wall_of example_heap 2 = Some 4
   \<and> \<not> isl (Side_remove example_heap 2 10)
   \<and> isinstance example_heap 13 Roof \<and> roof_of example_heap 0 = Some 1
   \<and> \<not> isl (Building_remove example_heap 0 13)"
  by (simp add: example_heap_def isinstance_def wall_of_def roof_of_def Side_remove_def
      Building_remove_def)

text \<open>
  Claim C4, amended. A collection's \<^verbatim>\<open>remove\<close> with a child that is not among its
  materials, and a side's \<^verbatim>\<open>remove\<close> with an opening that is not among its openings,
  fail with \<^verbatim>\<open>ValueError\<close>. A side's \<^verbatim>\<open>remove\<close> with a wall and a building's
  \<^verbatim>\<open>remove\<close> with a roof, side or floor raise no error, whether or not the child is
  held.
\<close>

theorem remove_non_member:
  "(h self = Some (OCollection k c) \<and> child \<notin> set (materials c)
      \<longrightarrow> MaterialCollection_remove h self child = Inl ValueError)
   \<and> (h sself = Some (OSide s) \<and> isinstance h op Opening \<and> op \<notin> set (openings s)
      \<longrightarrow> Side_remove h sself op = Inl ValueError)
   \<and> (h sself = Some (OSide s) \<and> isinstance h w Wall
      \<longrightarrow> \<not> isl (Side_remove h sself w))
   \<and> (h bself = Some (OBuilding b)
        \<and> (isinstance h bchild Roof \<or> isinstance_Side h bchild \<or> isinstance h bchild Floor)
      \<longrightarrow> \<not> isl (Building_remove h bself bchild))"
proof -
  have "Side_remove h sself op = Inl ValueError"
    if "h sself = Some (OSide s)" "isinstance h op Opening" "op \<notin> set (openings s)"
  proof -
    from that(2) have "\<not> isinstance h op Wall"
      by (auto simp: isinstance_def split: option.splits obj.splits)
    with that show ?thesis by (simp add: Side_remove_def)
  qed
  then show ?thesis
    by (auto simp: MaterialCollection_remove_def Side_remove_def Building_remove_def)
qed

theorem remove_non_member_witness:
  "MaterialCollection_remove example_heap 16 12 = Inl ValueError
   \<and> Side_remove example_heap 2 11 = Inl ValueError
   \<and> \<not> isl (Side_remove example_heap 2 10)
   \<and> \<not> isl (Building_remove example_heap 0 13)"
proof -
  have c: "example_heap 16 = Some (OCollection MaterialCollection
      \<lparr>parent_c = None, surface = Some 10, materials = [17, 18]\<rparr>)"
    and s: "example_heap 2 =
      Some (OSide \<lparr>parent_s = Some 0, height = Some 3, wall = Some 4, openings = [6]\<rparr>)"
    and b: "example_heap 0 = Some (OBuilding \<lparr>width = Some 5, length_b = Some 4,
      roof = Some 1, side_b = Some 2, floor_b = Some 3\<rparr>)"
    by (simp_all add: example_heap_def)
  have i: "isinstance example_heap 11 Opening" "isinstance example_heap 10 Wall"
    "isinstance example_heap 13 Roof"
    by (simp_all add: example_heap_def isinstance_def)
  show ?thesis
    using remove_non_member [where h = example_heap and self = 16 and child = 12
        and sself = 2 and op = 11 and w = 10 and bself = 0 and bchild = 13
        and k = MaterialCollection
        and c = "\<lparr>parent_c = None, surface = Some 10, materials = [17, 18]\<rparr>"
        and s = "\<lparr>parent_s = Some 0, height = Some 3, wall = Some 4, openings = [6]\<rparr>"
        and b = "\<lparr>width = Some 5, length_b = Some 4, roof = Some 1, side_b = Some 2,
                  floor_b = Some 3\<rparr>"]
      c s b i
    by simp
qed

text \<open>Adding a child and removing it again, one kind of child at a time. Each lemma
  names the store after \<^verbatim>\<open>add\<close> and the store after \<^verbatim>\<open>remove\<close> in full: the composite
  and the child are the only objects written, and both are still there afterwards.\<close>

lemma pair_material:
  assumes "h c = Some (OCollection k col)" and "h m = Some (OMaterial mat)"
    and "m \<notin> set (materials col)"
  shows "\<exists>h1 h2. MaterialCollection_add h c m = Inr h1
          \<and> h1 = h(c \<mapsto> OCollection k (col\<lparr>materials := materials col @ [m]\<rparr>),
                   m \<mapsto> OMaterial (mat\<lparr>parent_m := Some c\<rparr>))
          \<and> parent_of h1 m = Some c \<and> m \<in> set (materials_of h1 c)
          \<and> MaterialCollection_remove h1 c m = Inr h2
          \<and> h2 = h(c \<mapsto> OCollection k col,
                   m \<mapsto> OMaterial (mat\<lparr>parent_m := None\<rparr>))
          \<and> parent_of h2 m = None \<and> m \<notin> set (materials_of h2 c)"
proof -
  define g1 where "g1 = h(c \<mapsto> OCollection k (col\<lparr>materials := materials col @ [m]\<rparr>),
      m \<mapsto> OMaterial (mat\<lparr>parent_m := Some c\<rparr>))"
  define g2 where "g2 = h(c \<mapsto> OCollection k col,
      m \<mapsto> OMaterial (mat\<lparr>parent_m := None\<rparr>))"
  have ne: "c \<noteq> m" using assms by auto
  have added: "MaterialCollection_add h c m = Inr g1"
    using assms ne by (simp add: g1_def set_parent_def MaterialCollection_add_def MaterialCollection_remove_def materials_of_def remove1_append)
  have removed: "MaterialCollection_remove g1 c m = Inr g2"
    using assms ne
    by (auto simp: g1_def g2_def set_parent_def fun_eq_iff MaterialCollection_add_def MaterialCollection_remove_def materials_of_def remove1_append)
  have seen: "parent_of g1 m = Some c" "m \<in> set (materials_of g1 c)"
    "parent_of g2 m = None" "m \<notin> set (materials_of g2 c)"
    using assms ne by (simp_all add: g1_def g2_def parent_of_def MaterialCollection_add_def MaterialCollection_remove_def materials_of_def remove1_append)
  from added removed seen show ?thesis
    unfolding g1_def g2_def by simp
qed

lemma pair_wall:
  assumes "h s = Some (OSide sd)" and "h w = Some (OCollection Wall wc)"
  shows "\<exists>h1 h2. Side_add h s w = Inr h1
          \<and> h1 = h(s \<mapsto> OSide (sd\<lparr>wall := Some w\<rparr>),
                   w \<mapsto> OCollection Wall (wc\<lparr>parent_c := Some s\<rparr>))
          \<and> parent_of h1 w = Some s \<and> wall_of h1 s = Some w
          \<and> Side_remove h1 s w = Inr h2
          \<and> h2 = h(s \<mapsto> OSide (sd\<lparr>wall := None\<rparr>),
                   w \<mapsto> OCollection Wall (wc\<lparr>parent_c := None\<rparr>))
          \<and> parent_of h2 w = None \<and> wall_of h2 s = None"
proof -
  define g1 where "g1 = h(s \<mapsto> OSide (sd\<lparr>wall := Some w\<rparr>),
      w \<mapsto> OCollection Wall (wc\<lparr>parent_c := Some s\<rparr>))"
  define g2 where "g2 = h(s \<mapsto> OSide (sd\<lparr>wall := None\<rparr>),
      w \<mapsto> OCollection Wall (wc\<lparr>parent_c := None\<rparr>))"
  have ne: "s \<noteq> w" using assms by auto
  have added: "Side_add h s w = Inr g1"
    using assms ne by (simp add: g1_def set_parent_def Side_add_def Side_remove_def isinstance_def wall_of_def)
  have removed: "Side_remove g1 s w = Inr g2"
    using assms ne
    by (auto simp: g1_def g2_def set_parent_def fun_eq_iff Side_add_def Side_remove_def isinstance_def wall_of_def)
  have seen: "parent_of g1 w = Some s" "wall_of g1 s = Some w"
    "parent_of g2 w = None" "wall_of g2 s = None"
    using assms ne by (simp_all add: g1_def g2_def parent_of_def Side_add_def Side_remove_def isinstance_def wall_of_def)
  from added removed seen show ?thesis
    unfolding g1_def g2_def by simp
qed

lemma pair_opening:
  assumes "h s = Some (OSide sd)" and "h op = Some (OCollection Opening oc)"
    and "op \<notin> set (openings sd)"
  shows "\<exists>h1 h2. Side_add h s op = Inr h1
          \<and> h1 = h(s \<mapsto> OSide (sd\<lparr>openings := openings sd @ [op]\<rparr>),
                   op \<mapsto> OCollection Opening (oc\<lparr>parent_c := Some s\<rparr>))
          \<and> parent_of h1 op = Some s \<and> op \<in> set (openings_of h1 s)
          \<and> Side_remove h1 s op = Inr h2
          \<and> h2 = h(s \<mapsto> OSide sd,
                   op \<mapsto> OCollection Opening (oc\<lparr>parent_c := None\<rparr>))
          \<and> parent_of h2 op = None \<and> op \<notin> set (openings_of h2 s)"
proof -
  define g1 where "g1 = h(s \<mapsto> OSide (sd\<lparr>openings := openings sd @ [op]\<rparr>),
      op \<mapsto> OCollection Opening (oc\<lparr>parent_c := Some s\<rparr>))"
  define g2 where "g2 = h(s \<mapsto> OSide sd,
      op \<mapsto> OCollection Opening (oc\<lparr>parent_c := None\<rparr>))"
  have ne: "s \<noteq> op" using assms by auto
  have added: "Side_add h s op = Inr g1"
    using assms ne by (simp add: g1_def set_parent_def Side_add_def Side_remove_def isinstance_def openings_of_def remove1_append)
  have removed: "Side_remove g1 s op = Inr g2"
    using assms ne
    by (auto simp: g1_def g2_def set_parent_def fun_eq_iff Side_add_def Side_remove_def isinstance_def openings_of_def remove1_append)
  have seen: "parent_of g1 op = Some s" "op \<in> set (openings_of g1 s)"
    "parent_of g2 op = None" "op \<notin> set (openings_of g2 s)"
    using assms ne by (simp_all add: g1_def g2_def parent_of_def Side_add_def Side_remove_def isinstance_def openings_of_def remove1_append)
  from added removed seen show ?thesis
    unfolding g1_def g2_def by simp
qed

lemma pair_roof:
  assumes "h b = Some (OBuilding bd)" and "h r = Some (OCollection Roof rc)"
  shows "\<exists>h1 h2. Building_add h b r = Inr h1
          \<and> h1 = h(b \<mapsto> OBuilding (bd\<lparr>roof := Some r\<rparr>),
                   r \<mapsto> OCollection Roof (rc\<lparr>parent_c := Some b\<rparr>))
          \<and> parent_of h1 r = Some b \<and> roof_of h1 b = Some r
          \<and> Building_remove h1 b r = Inr h2
          \<and> h2 = h(b \<mapsto> OBuilding (bd\<lparr>roof := None\<rparr>),
                   r \<mapsto> OCollection Roof (rc\<lparr>parent_c := None\<rparr>))
          \<and> parent_of h2 r = None \<and> roof_of h2 b = None"
proof -
  define g1 where "g1 = h(b \<mapsto> OBuilding (bd\<lparr>roof := Some r\<rparr>),
      r \<mapsto> OCollection Roof (rc\<lparr>parent_c := Some b\<rparr>))"
  define g2 where "g2 = h(b \<mapsto> OBuilding (bd\<lparr>roof := None\<rparr>),
      r \<mapsto> OCollection Roof (rc\<lparr>parent_c := None\<rparr>))"
  have ne: "b \<noteq> r" using assms by auto
  have added: "Building_add h b r = Inr g1"
    using assms ne by (simp add: g1_def set_parent_def Building_add_def Building_remove_def isinstance_def roof_of_def)
  have removed: "Building_remove g1 b r = Inr g2"
    using assms ne
    by (auto simp: g1_def g2_def set_parent_def fun_eq_iff Building_add_def Building_remove_def isinstance_def roof_of_def)
  have seen: "parent_of g1 r = Some b" "roof_of g1 b = Some r"
    "parent_of g2 r = None" "roof_of g2 b = None"
    using assms ne by (simp_all add: g1_def g2_def parent_of_def Building_add_def Building_remove_def isinstance_def roof_of_def)
  from added removed seen show ?thesis
    unfolding g1_def g2_def by simp
qed

lemma pair_side:
  assumes "h b = Some (OBuilding bd)" and "h bs = Some (OSide bsd)"
  shows "\<exists>h1 h2. Building_add h b bs = Inr h1
          \<and> h1 = h(b \<mapsto> OBuilding (bd\<lparr>side_b := Some bs\<rparr>),
                   bs \<mapsto> OSide (bsd\<lparr>parent_s := Some b\<rparr>))
          \<and> parent_of h1 bs = Some b \<and> side_of h1 b = Some bs
          \<and> Building_remove h1 b bs = Inr h2
          \<and> h2 = h(b \<mapsto> OBuilding (bd\<lparr>side_b := None\<rparr>),
                   bs \<mapsto> OSide (bsd\<lparr>parent_s := None\<rparr>))
          \<and> parent_of h2 bs = None \<and> side_of h2 b = None"
proof -
  define g1 where "g1 = h(b \<mapsto> OBuilding (bd\<lparr>side_b := Some bs\<rparr>),
      bs \<mapsto> OSide (bsd\<lparr>parent_s := Some b\<rparr>))"
  define g2 where "g2 = h(b \<mapsto> OBuilding (bd\<lparr>side_b := None\<rparr>),
      bs \<mapsto> OSide (bsd\<lparr>parent_s := None\<rparr>))"
  have ne: "b \<noteq> bs" using assms by auto
  have added: "Building_add h b bs = Inr g1"
    using assms ne by (simp add: g1_def set_parent_def Building_add_def Building_remove_def isinstance_def isinstance_Side_def side_of_def)
  have removed: "Building_remove g1 b bs = Inr g2"
    using assms ne
    by (auto simp: g1_def g2_def set_parent_def fun_eq_iff Building_add_def Building_remove_def isinstance_def isinstance_Side_def side_of_def)
  have seen: "parent_of g1 bs = Some b" "side_of g1 b = Some bs"
    "parent_of g2 bs = None" "side_of g2 b = None"
    using assms ne by (simp_all add: g1_def g2_def parent_of_def Building_add_def Building_remove_def isinstance_def isinstance_Side_def side_of_def)
  from added removed seen show ?thesis
    unfolding g1_def g2_def by simp
qed

lemma pair_floor:
  assumes "h b = Some (OBuilding bd)" and "h f = Some (OCollection Floor fc)"
  shows "\<exists>h1 h2. Building_add h b f = Inr h1
          \<and> h1 = h(b \<mapsto> OBuilding (bd\<lparr>floor_b := Some f\<rparr>),
                   f \<mapsto> OCollection Floor (fc\<lparr>parent_c := Some b\<rparr>))
          \<and> parent_of h1 f = Some b \<and> floor_of h1 b = Some f
          \<and> Building_remove h1 b f = Inr h2
          \<and> h2 = h(b \<mapsto> OBuilding (bd\<lparr>floor_b := None\<rparr>),
                   f \<mapsto> OCollection Floor (fc\<lparr>parent_c := None\<rparr>))
          \<and> parent_of h2 f = None \<and> floor_of h2 b = None"
proof -
  define g1 where "g1 = h(b \<mapsto> OBuilding (bd\<lparr>floor_b := Some f\<rparr>),
      f \<mapsto> OCollection Floor (fc\<lparr>parent_c := Some b\<rparr>))"
  define g2 where "g2 = h(b \<mapsto> OBuilding (bd\<lparr>floor_b := None\<rparr>),
      f \<mapsto> OCollection Floor (fc\<lparr>parent_c := None\<rparr>))"
  have ne: "b \<noteq> f" using assms by auto
  have added: "Building_add h b f = Inr g1"
    using assms ne by (simp add: g1_def set_parent_def Building_add_def Building_remove_def isinstance_def isinstance_Side_def floor_of_def)
  have removed: "Building_remove g1 b f = Inr g2"
    using assms ne
    by (auto simp: g1_def g2_def set_parent_def fun_eq_iff Building_add_def Building_remove_def isinstance_def isinstance_Side_def floor_of_def)
  have seen: "parent_of g1 f = Some b" "floor_of g1 b = Some f"
    "parent_of g2 f = None" "floor_of g2 b = None"
    using assms ne by (simp_all add: g1_def g2_def parent_of_def Building_add_def Building_remove_def isinstance_def isinstance_Side_def floor_of_def)
  from added removed seen show ?thesis
    unfolding g1_def g2_def by simp
qed

text \<open>
  Claim C8. After \<^verbatim>\<open>add\<close> the child points back at the composite and the composite
  holds it; after the \<^verbatim>\<open>remove\<close> that follows the child's back-reference is \<open>None\<close> and
  the composite no longer holds it. This holds for a collection and a material not yet in
  it, for a side with a wall and with an opening not yet in it, and for a building with a
  roof, a side and a floor, each pairing needing only its own two objects in the store.
  Both stores are given in full: after \<^verbatim>\<open>add\<close> and \<^verbatim>\<open>remove\<close> a collection's materials
  and a side's openings are what they were, a slot is empty, the child is unchanged but
  for its back-reference, and every other object is untouched.
\<close>

theorem add_remove_pairing:
  "((h c = Some (OCollection k col) \<and> h m = Some (OMaterial mat) \<and> m \<notin> set (materials col)) \<longrightarrow>
      (\<exists>h1 h2. MaterialCollection_add h c m = Inr h1
        \<and> h1 = h(c \<mapsto> OCollection k (col\<lparr>materials := materials col @ [m]\<rparr>),
                 m \<mapsto> OMaterial (mat\<lparr>parent_m := Some c\<rparr>))
        \<and> parent_of h1 m = Some c \<and> m \<in> set (materials_of h1 c)
        \<and> MaterialCollection_remove h1 c m = Inr h2
        \<and> h2 = h(c \<mapsto> OCollection k col,
                 m \<mapsto> OMaterial (mat\<lparr>parent_m := None\<rparr>))
        \<and> parent_of h2 m = None \<and> m \<notin> set (materials_of h2 c)))
   \<and> ((h s = Some (OSide sd) \<and> h w = Some (OCollection Wall wc)) \<longrightarrow>
      (\<exists>h1 h2. Side_add h s w = Inr h1
        \<and> h1 = h(s \<mapsto> OSide (sd\<lparr>wall := Some w\<rparr>),
                 w \<mapsto> OCollection Wall (wc\<lparr>parent_c := Some s\<rparr>))
        \<and> parent_of h1 w = Some s \<and> wall_of h1 s = Some w
        \<and> Side_remove h1 s w = Inr h2
        \<and> h2 = h(s \<mapsto> OSide (sd\<lparr>wall := None\<rparr>),
                 w \<mapsto> OCollection Wall (wc\<lparr>parent_c := None\<rparr>))
        \<and> parent_of h2 w = None \<and> wall_of h2 s = None))
   \<and> ((h s = Some (OSide sd) \<and> h op = Some (OCollection Opening oc) \<and> op \<notin> set (openings sd)) \<longrightarrow>
      (\<exists>h1 h2. Side_add h s op = Inr h1
        \<and> h1 = h(s \<mapsto> OSide (sd\<lparr>openings := openings sd @ [op]\<rparr>),
                 op \<mapsto> OCollection Opening (oc\<lparr>parent_c := Some s\<rparr>))
        \<and> parent_of h1 op = Some s \<and> op \<in> set (openings_of h1 s)
        \<and> Side_remove h1 s op = Inr h2
        \<and> h2 = h(s \<mapsto> OSide sd,
                 op \<mapsto> OCollection Opening (oc\<lparr>parent_c := None\<rparr>))
        \<and> parent_of h2 op = None \<and> op \<notin> set (openings_of h2 s)))
   \<and> ((h b = Some (OBuilding bd) \<and> h r = Some (OCollection Roof rc)) \<longrightarrow>
      (\<exists>h1 h2. Building_add h b r = Inr h1
        \<and> h1 = h(b \<mapsto> OBuilding (bd\<lparr>roof := Some r\<rparr>),
                 r \<mapsto> OCollection Roof (rc\<lparr>parent_c := Some b\<rparr>))
        \<and> parent_of h1 r = Some b \<and> roof_of h1 b = Some r
        \<and> Building_remove h1 b r = Inr h2
        \<and> h2 = h(b \<mapsto> OBuilding (bd\<lparr>roof := None\<rparr>),
                 r \<mapsto> OCollection Roof (rc\<lparr>parent_c := None\<rparr>))
        \<and> parent_of h2 r = None \<and> roof_of h2 b = None))
   \<and> ((h b = Some (OBuilding bd) \<and> h bs = Some (OSide bsd)) \<longrightarrow>
      (\<exists>h1 h2. Building_add h b bs = Inr h1
        \<and> h1 = h(b \<mapsto> OBuilding (bd\<lparr>side_b := Some bs\<rparr>),
                 bs \<mapsto> OSide (bsd\<lparr>parent_s := Some b\<rparr>))
        \<and> parent_of h1 bs = Some b \<and> side_of h1 b = Some bs
        \<and> Building_remove h1 b bs = Inr h2
        \<and> h2 = h(b \<mapsto> OBuilding (bd\<lparr>side_b := None\<rparr>),
                 bs \<mapsto> OSide (bsd\<lparr>parent_s := None\<rparr>))
        \<and> parent_of h2 bs = None \<and> side_of h2 b = None))
   \<and> ((h b = Some (OBuilding bd) \<and> h f = Some (OCollection Floor fc)) \<longrightarrow>
      (\<exists>h1 h2. Building_add h b f = Inr h1
        \<and> h1 = h(b \<mapsto> OBuilding (bd\<lparr>floor_b := Some f\<rparr>),
                 f \<mapsto> OCollection Floor (fc\<lparr>parent_c := Some b\<rparr>))
        \<and> parent_of h1 f = Some b \<and> floor_of h1 b = Some f
        \<and> Building_remove h1 b f = Inr h2
        \<and> h2 = h(b \<mapsto> OBuilding (bd\<lparr>floor_b := None\<rparr>),
                 f \<mapsto> OCollection Floor (fc\<lparr>parent_c := None\<rparr>))
        \<and> parent_of h2 f = None \<and> floor_of h2 b = None))"
  using pair_material [of h c k col m mat] pair_wall [of h s sd w wc]
    pair_opening [of h s sd op oc] pair_roof [of h b bd r rc] pair_side [of h b bd bs bsd]
    pair_floor [of h b bd f fc]
  by (intro conjI impI; elim conjE) blast+

theorem add_remove_pairing_witness:
  "MaterialCollection_add example_heap 16 12 =
     Inr (example_heap
       (16 \<mapsto> OCollection MaterialCollection
                \<lparr>parent_c = None, surface = Some 10, materials = [17, 18, 12]\<rparr>,
        12 \<mapsto> OMaterial \<lparr>parent_m = Some 16, thermal_conductivity = Some (1 / 2),
                          thickness = Some (1 / 10)\<rparr>))
   \<and> MaterialCollection_remove
       (example_heap
         (16 \<mapsto> OCollection MaterialCollection
                  \<lparr>parent_c = None, surface = Some 10, materials = [17, 18, 12]\<rparr>,
          12 \<mapsto> OMaterial \<lparr>parent_m = Some 16, thermal_conductivity = Some (1 / 2),
                            thickness = Some (1 / 10)\<rparr>)) 16 12 =
     Inr (example_heap
       (16 \<mapsto> OCollection MaterialCollection
                \<lparr>parent_c = None, surface = Some 10, materials = [17, 18]\<rparr>,
        12 \<mapsto> OMaterial \<lparr>parent_m = None, thermal_conductivity = Some (1 / 2),
                          thickness = Some (1 / 10)\<rparr>))
   \<and> Side_add example_heap 2 10 =
     Inr (example_heap
       (2 \<mapsto> OSide \<lparr>parent_s = Some 0, height = Some 3, wall = Some 10, openings = [6]\<rparr>,
        10 \<mapsto> OCollection Wall \<lparr>parent_c = Some 2, surface = None, materials = []\<rparr>))
   \<and> Side_remove
       (example_heap
         (2 \<mapsto> OSide \<lparr>parent_s = Some 0, height = Some 3, wall = Some 10, openings = [6]\<rparr>,
          10 \<mapsto> OCollection Wall \<lparr>parent_c = Some 2, surface = None, materials = []\<rparr>))
       2 10 =
     Inr (example_heap
       (2 \<mapsto> OSide \<lparr>parent_s = Some 0, height = Some 3, wall = None, openings = [6]\<rparr>,
        10 \<mapsto> OCollection Wall \<lparr>parent_c = None, surface = None, materials = []\<rparr>))
   \<and> Side_add example_heap 2 11 =
     Inr (example_heap
       (2 \<mapsto> OSide \<lparr>parent_s = Some 0, height = Some 3, wall = Some 4, openings = [6, 11]\<rparr>,
        11 \<mapsto> OCollection Opening \<lparr>parent_c = Some 2, surface = Some 1, materials = []\<rparr>))
   \<and> Side_remove
       (example_heap
         (2 \<mapsto> OSide \<lparr>parent_s = Some 0, height = Some 3, wall = Some 4,
                        openings = [6, 11]\<rparr>,
          11 \<mapsto> OCollection Opening \<lparr>parent_c = Some 2, surface = Some 1, materials = []\<rparr>))
       2 11 =
     Inr (example_heap
       (2 \<mapsto> OSide \<lparr>parent_s = Some 0, height = Some 3, wall = Some 4, openings = [6]\<rparr>,
        11 \<mapsto> OCollection Opening \<lparr>parent_c = None, surface = Some 1, materials = []\<rparr>))
   \<and> Building_add example_heap 0 13 =
     Inr (example_heap
       (0 \<mapsto> OBuilding \<lparr>width = Some 5, length_b = Some 4, roof = Some 13, side_b = Some 2,
                         floor_b = Some 3\<rparr>,
        13 \<mapsto> OCollection Roof \<lparr>parent_c = Some 0, surface = None, materials = []\<rparr>))
   \<and> Building_remove
       (example_heap
         (0 \<mapsto> OBuilding \<lparr>width = Some 5, length_b = Some 4, roof = Some 13, side_b = Some 2,
                           floor_b = Some 3\<rparr>,
          13 \<mapsto> OCollection Roof \<lparr>parent_c = Some 0, surface = None, materials = []\<rparr>))
       0 13 =
     Inr (example_heap
       (0 \<mapsto> OBuilding \<lparr>width = Some 5, length_b = Some 4, roof = None, side_b = Some 2,
                         floor_b = Some 3\<rparr>,
        13 \<mapsto> OCollection Roof \<lparr>parent_c = None, surface = None, materials = []\<rparr>))
   \<and> Building_add example_heap 0 14 =
     Inr (example_heap
       (0 \<mapsto> OBuilding \<lparr>width = Some 5, length_b = Some 4, roof = Some 1, side_b = Some 14,
                         floor_b = Some 3\<rparr>,
        14 \<mapsto> OSide \<lparr>parent_s = Some 0, height = Some 2, wall = None, openings = []\<rparr>))
   \<and> Building_remove
       (example_heap
         (0 \<mapsto> OBuilding \<lparr>width = Some 5, length_b = Some 4, roof = Some 1,
                           side_b = Some 14, floor_b = Some 3\<rparr>,
          14 \<mapsto> OSide \<lparr>parent_s = Some 0, height = Some 2, wall = None, openings = []\<rparr>))
       0 14 =
     Inr (example_heap
       (0 \<mapsto> OBuilding \<lparr>width = Some 5, length_b = Some 4, roof = Some 1, side_b = None,
                         floor_b = Some 3\<rparr>,
        14 \<mapsto> OSide \<lparr>parent_s = None, height = Some 2, wall = None, openings = []\<rparr>))
   \<and> Building_add example_heap 0 15 =
     Inr (example_heap
       (0 \<mapsto> OBuilding \<lparr>width = Some 5, length_b = Some 4, roof = Some 1, side_b = Some 2,
                         floor_b = Some 15\<rparr>,
        15 \<mapsto> OCollection Floor \<lparr>parent_c = Some 0, surface = None, materials = []\<rparr>))
   \<and> Building_remove
       (example_heap
         (0 \<mapsto> OBuilding \<lparr>width = Some 5, length_b = Some 4, roof = Some 1, side_b = Some 2,
                           floor_b = Some 15\<rparr>,
          15 \<mapsto> OCollection Floor \<lparr>parent_c = Some 0, surface = None, materials = []\<rparr>))
       0 15 =
     Inr (example_heap
       (0 \<mapsto> OBuilding \<lparr>width = Some 5, length_b = Some 4, roof = Some 1, side_b = Some 2,
                         floor_b = None\<rparr>,
        15 \<mapsto> OCollection Floor \<lparr>parent_c = None, surface = None, materials = []\<rparr>))
   \<and> MaterialCollection_remove
       [0 \<mapsto> OCollection Wall \<lparr>parent_c = None, surface = None, materials = [1]\<rparr>,
        1 \<mapsto> OMaterial \<lparr>parent_m = Some 0, thermal_conductivity = Some 1,
                         thickness = Some 1\<rparr>] 0 1 =
     Inr [0 \<mapsto> OCollection Wall \<lparr>parent_c = None, surface = None, materials = []\<rparr>,
          1 \<mapsto> OMaterial \<lparr>parent_m = None, thermal_conductivity = Some 1,
                           thickness = Some 1\<rparr>]"
proof -
  let ?col = "\<lparr>parent_c = None, surface = Some 10, materials = [17, 18]\<rparr>"
  let ?mat = "\<lparr>parent_m = None, thermal_conductivity = Some (1 / 2),
               thickness = Some (1 / 10)\<rparr>"
  let ?sd = "\<lparr>parent_s = Some 0, height = Some 3, wall = Some 4, openings = [6]\<rparr>"
  let ?wc = "\<lparr>parent_c = None, surface = None, materials = []\<rparr>"
  let ?oc = "\<lparr>parent_c = None, surface = Some 1, materials = []\<rparr>"
  let ?bd = "\<lparr>width = Some 5, length_b = Some 4, roof = Some 1, side_b = Some 2,
              floor_b = Some 3\<rparr>"
  let ?bsd = "\<lparr>parent_s = None, height = Some 2, wall = None, openings = []\<rparr>"
  let ?small = "[0 \<mapsto> OCollection Wall \<lparr>parent_c = None, surface = None, materials = []\<rparr>,
                 1 \<mapsto> OMaterial \<lparr>parent_m = None, thermal_conductivity = Some 1,
                                  thickness = Some 1\<rparr>] :: heap"
  have c: "example_heap 16 = Some (OCollection MaterialCollection ?col)"
    and m: "example_heap 12 = Some (OMaterial ?mat)"
    and s: "example_heap 2 = Some (OSide ?sd)"
    and w: "example_heap 10 = Some (OCollection Wall ?wc)"
    and op: "example_heap 11 = Some (OCollection Opening ?oc)"
    and b: "example_heap 0 = Some (OBuilding ?bd)"
    and r: "example_heap 13 = Some (OCollection Roof ?wc)"
    and bs: "example_heap 14 = Some (OSide ?bsd)"
    and f: "example_heap 15 = Some (OCollection Floor ?wc)"
    by (simp_all add: example_heap_def)
  note big = add_remove_pairing [where h = example_heap
      and c = 16 and k = MaterialCollection and col = ?col and m = 12 and mat = ?mat
      and s = 2 and sd = ?sd and w = 10 and wc = ?wc and op = 11 and oc = ?oc
      and b = 0 and bd = ?bd and r = 13 and rc = ?wc and bs = 14 and bsd = ?bsd
      and f = 15 and fc = ?wc]
  note small = add_remove_pairing [where h = ?small and c = 0 and k = Wall
      and col = "\<lparr>parent_c = None, surface = None, materials = []\<rparr>" and m = 1
      and mat = "\<lparr>parent_m = None, thermal_conductivity = Some 1, thickness = Some 1\<rparr>",
      THEN conjunct1]
  have one: "MaterialCollection_remove
       [0 \<mapsto> OCollection Wall \<lparr>parent_c = None, surface = None, materials = [1]\<rparr>,
        1 \<mapsto> OMaterial \<lparr>parent_m = Some 0, thermal_conductivity = Some 1,
                         thickness = Some 1\<rparr>] 0 1 =
     Inr [0 \<mapsto> OCollection Wall \<lparr>parent_c = None, surface = None, materials = []\<rparr>,
          1 \<mapsto> OMaterial \<lparr>parent_m = None, thermal_conductivity = Some 1,
                           thickness = Some 1\<rparr>]"
    using small by simp
  show ?thesis
    using big c m s w op b r bs f one by simp
qed


subsection \<open>Side flux\<close>

text \<open>The two loops over a side's openings, when every element is an opening: the
  surfaces are read off, and the flux loop adds the openings' fluxes and writes nothing.\<close>

lemma openings_surfaces_openings:
  assumes "map h as = map (\<lambda>oc. Some (OCollection Opening oc)) ocs"
  shows "openings_surfaces h as = Inr (map surface ocs)"
  using assms
proof (induction as arbitrary: ocs)
  case Nil
  then show ?case by simp
next
  case (Cons a as)
  then obtain oc ocs' where "ocs = oc # ocs'"
    by (cases ocs) auto
  with Cons show ?case by simp
qed

lemma py_sum_set: "py_sum (map Some xs) acc = Inr (acc + sum_list xs)"
  by (induction xs arbitrary: acc) (simp_all add: add.assoc)

lemma flux_loop_openings:
  assumes "map h as = map (\<lambda>oc. Some (OCollection Opening oc)) ocs"
  shows "snd (flux_loop h as tv acc) = h"
    and "map (\<lambda>oc. MaterialCollection_calculate_flux h Opening oc tv) ocs = map Inr fs
         \<Longrightarrow> flux_loop h as tv acc = (Inr (acc + sum_list fs), h)"
  using assms
proof (induction as arbitrary: ocs fs acc)
  case Nil
  { case 1 show ?case by simp }
  { case 2 then show ?case by simp }
next
  case (Cons a as)
  { case 1
    then obtain oc ocs' where ocs: "ocs = oc # ocs'"
      by (cases ocs) auto
    with 1 have a: "calculate_flux h a tv = (MaterialCollection_calculate_flux h Opening oc tv, h)"
      and rest: "map h as = map (\<lambda>oc. Some (OCollection Opening oc)) ocs'"
      by (simp_all add: calculate_flux_def)
    show ?case
      using a Cons.IH(1) [OF rest]
      by (cases "MaterialCollection_calculate_flux h Opening oc tv") simp_all }
  { case 2
    then obtain oc ocs' where ocs: "ocs = oc # ocs'"
      by (cases ocs) auto
    with 2 obtain f fs' where fs: "fs = f # fs'"
      by (cases fs) auto
    from 2 ocs fs
    have a: "calculate_flux h a tv = (Inr f, h)"
      and rest: "map h as = map (\<lambda>oc. Some (OCollection Opening oc)) ocs'"
      and frest: "map (\<lambda>oc. MaterialCollection_calculate_flux h Opening oc tv) ocs' = map Inr fs'"
      by (simp_all add: calculate_flux_def)
    show ?case
      using a Cons.IH(2) [OF frest rest] by (simp add: fs add.assoc) }
qed

text \<open>
  Claim C3. Take a side with a wall attached, of height \<open>H\<close>, attached to a building of
  width \<open>W\<close> and length \<open>L\<close>, whose openings have the surfaces \<open>xs\<close>. After
  \<^verbatim>\<open>calculate_flux\<close> the store differs from the one before only in the wall's surface,
  which is \<open>2 * H * (W + L) - sum xs\<close>, also when a flux raises; and when the wall's flux on
  that surface is \<open>fw\<close> and the openings' fluxes are \<open>fs\<close>, the call returns
  \<open>fw + sum fs\<close>. With no opening both sums are 0.
\<close>

theorem Side_calculate_flux_wall_surface_and_sum:
  assumes "h self = Some (OSide s)"
    and "wall s = Some w" and "h w = Some (OCollection Wall c)"
    and "parent_s s = Some b" and "h b = Some (OBuilding bd)"
    and "width bd = Some W" and "length_b bd = Some L"
    and "height s = Some H"
    and "map h (openings s) = map (\<lambda>oc. Some (OCollection Opening oc)) ocs"
    and "map surface ocs = map Some xs"
  shows "snd (Side_calculate_flux h self tv) =
           h(w \<mapsto> OCollection Wall (c\<lparr>surface := Some (2 * H * (W + L) - sum_list xs)\<rparr>))
       \<and> (\<forall>fw fs.
            MaterialCollection_calculate_flux
                (h(w \<mapsto> OCollection Wall (c\<lparr>surface := Some (2 * H * (W + L) - sum_list xs)\<rparr>)))
                Wall (c\<lparr>surface := Some (2 * H * (W + L) - sum_list xs)\<rparr>) tv = Inr fw
            \<and> map (\<lambda>oc. MaterialCollection_calculate_flux
                (h(w \<mapsto> OCollection Wall (c\<lparr>surface := Some (2 * H * (W + L) - sum_list xs)\<rparr>)))
                Opening oc tv) ocs = map Inr fs
          \<longrightarrow> fst (Side_calculate_flux h self tv) = Inr (fw + sum_list fs))"
proof -
  define c' where "c' = c\<lparr>surface := Some (2 * H * (W + L) - sum_list xs)\<rparr>"
  define h' where "h' = h(w \<mapsto> OCollection Wall c')"
  have surfs: "openings_surfaces h (openings s) = Inr (map Some xs)"
    using openings_surfaces_openings [OF assms(9)] assms(10) by simp
  have area: "wall_surface h s (map Some xs) = Inr (2 * H * (W + L) - sum_list xs)"
    using assms(4-8) by (simp add: wall_surface_def py_sum_set)
  have "w \<notin> set (openings s)"
  proof
    assume "w \<in> set (openings s)"
    then have "h w \<in> set (map h (openings s))" by simp
    with assms(9) obtain oc where "h w = Some (OCollection Opening oc)" by auto
    with assms(3) show False by simp
  qed
  then have ops: "map h' (openings s) = map (\<lambda>oc. Some (OCollection Opening oc)) ocs"
    using assms(9) by (auto simp: h'_def)
  have "self \<noteq> w" using assms(1,3) by auto
  then have self': "openings_of h' self = openings s"
    using assms(1) by (simp add: openings_of_def h'_def)
  have wall: "calculate_flux h' w tv = (MaterialCollection_calculate_flux h' Wall c' tv, h')"
    by (simp add: calculate_flux_def h'_def)
  have unfold: "Side_calculate_flux h self tv =
      (case MaterialCollection_calculate_flux h' Wall c' tv of
         Inl e \<Rightarrow> (Inl e, h')
       | Inr f \<Rightarrow> flux_loop h' (openings s) tv (0 + f))"
    using assms(1-3) surfs area wall self'
    by (simp add: Side_calculate_flux_def Let_def c'_def [symmetric] h'_def [symmetric]
        split: sum.splits)
  have store: "snd (Side_calculate_flux h self tv) = h'"
    using flux_loop_openings(1) [OF ops]
    by (simp add: unfold split: sum.splits)
  have result: "fst (Side_calculate_flux h self tv) = Inr (fw + sum_list fs)"
    if "MaterialCollection_calculate_flux h' Wall c' tv = Inr fw"
      and "map (\<lambda>oc. MaterialCollection_calculate_flux h' Opening oc tv) ocs = map Inr fs"
    for fw fs
    using flux_loop_openings(2) [OF ops that(2)] that(1) by (simp add: unfold)
  from store result show ?thesis
    unfolding h'_def c'_def by blast
qed

theorem Side_calculate_flux_wall_surface_and_sum_witness:
  "Side_calculate_flux example_heap 2 (VNum 10) =
     (Inr 1728,
      example_heap(4 \<mapsto> OCollection Wall
        \<lparr>parent_c = Some 2, surface = Some 52, materials = [8]\<rparr>))
   \<and> Side_calculate_flux
       (example_heap(2 \<mapsto> OSide \<lparr>parent_s = Some 0, height = Some 3, wall = Some 4,
                                   openings = []\<rparr>)) 2 (VNum 10) =
     (Inr 1728,
      example_heap(2 \<mapsto> OSide \<lparr>parent_s = Some 0, height = Some 3, wall = Some 4,
                                  openings = []\<rparr>,
                   4 \<mapsto> OCollection Wall
        \<lparr>parent_c = Some 2, surface = Some 54, materials = [8]\<rparr>))"
proof -
  let ?s = "\<lparr>parent_s = Some 0, height = Some 3, wall = Some 4, openings = [6]\<rparr>"
  let ?t = "\<lparr>parent_s = Some 0, height = Some 3, wall = Some 4, openings = []\<rparr>"
  let ?c = "\<lparr>parent_c = Some 2, surface = None, materials = [8]\<rparr>"
  let ?bd = "\<lparr>width = Some 5, length_b = Some 4, roof = Some 1, side_b = Some 2,
              floor_b = Some 3\<rparr>"
  let ?oc = "\<lparr>parent_c = Some 2, surface = Some 2, materials = [9]\<rparr>"
  let ?g = "example_heap(2 \<mapsto> OSide ?t)"
  have s: "example_heap 2 = Some (OSide ?s)"
    and w: "example_heap 4 = Some (OCollection Wall ?c)"
    and b: "example_heap 0 = Some (OBuilding ?bd)"
    and ops: "map example_heap (openings ?s) = map (\<lambda>oc. Some (OCollection Opening oc)) [?oc]"
    by (simp_all add: example_heap_def)
  have xs: "map surface [?oc] = map Some [2]" by simp
  have fw: "MaterialCollection_calculate_flux
      (example_heap(4 \<mapsto> OCollection Wall (?c\<lparr>surface := Some (2 * 3 * (5 + 4) - sum_list [2])\<rparr>)))
      Wall (?c\<lparr>surface := Some (2 * 3 * (5 + 4) - sum_list [2])\<rparr>) (VNum 10) = Inr 1664"
    by (simp add: example_heap_def insulance_defs flux_defs)
  have fs: "map (\<lambda>oc. MaterialCollection_calculate_flux
      (example_heap(4 \<mapsto> OCollection Wall (?c\<lparr>surface := Some (2 * 3 * (5 + 4) - sum_list [2])\<rparr>)))
      Opening oc (VNum 10)) [?oc] = map Inr [64]"
    by (simp add: example_heap_def insulance_defs flux_defs)
  have one: "Side_calculate_flux example_heap 2 (VNum 10) =
     (Inr 1728, example_heap(4 \<mapsto> OCollection Wall
        \<lparr>parent_c = Some 2, surface = Some 52, materials = [8]\<rparr>))"
  proof -
    note t = Side_calculate_flux_wall_surface_and_sum
      [OF s _ w _ b _ _ _ ops xs, of 5 4 3 "VNum 10"]
    from t have "snd (Side_calculate_flux example_heap 2 (VNum 10)) =
        example_heap(4 \<mapsto> OCollection Wall
          \<lparr>parent_c = Some 2, surface = Some 52, materials = [8]\<rparr>)"
      by simp
    moreover from t [THEN conjunct2, rule_format, of 1664 "[64]"] fw fs
    have "fst (Side_calculate_flux example_heap 2 (VNum 10)) = Inr (1664 + sum_list [64])"
      by simp
    ultimately show ?thesis by (simp add: prod_eq_iff)
  qed
  have s0: "?g 2 = Some (OSide ?t)"
    and w0: "?g 4 = Some (OCollection Wall ?c)"
    and b0: "?g 0 = Some (OBuilding ?bd)"
    and ops0: "map ?g (openings ?t) = map (\<lambda>oc. Some (OCollection Opening oc)) []"
    by (simp_all add: example_heap_def)
  have xs0: "map surface ([] :: collection list) = map Some []" by simp
  have fw0: "MaterialCollection_calculate_flux
      (?g(4 \<mapsto> OCollection Wall (?c\<lparr>surface := Some (2 * 3 * (5 + 4) - sum_list [])\<rparr>)))
      Wall (?c\<lparr>surface := Some (2 * 3 * (5 + 4) - sum_list [])\<rparr>) (VNum 10) = Inr 1728"
    by (simp add: example_heap_def insulance_defs flux_defs)
  have two: "Side_calculate_flux ?g 2 (VNum 10) =
     (Inr 1728, ?g(4 \<mapsto> OCollection Wall
        \<lparr>parent_c = Some 2, surface = Some 54, materials = [8]\<rparr>))"
  proof -
    note t = Side_calculate_flux_wall_surface_and_sum
      [OF s0 _ w0 _ b0 _ _ _ ops0 xs0, of 5 4 3 "VNum 10"]
    from t have "snd (Side_calculate_flux ?g 2 (VNum 10)) =
        ?g(4 \<mapsto> OCollection Wall
          \<lparr>parent_c = Some 2, surface = Some 54, materials = [8]\<rparr>)"
      by simp
    moreover from t [THEN conjunct2, rule_format, of 1728 "[]"] fw0
    have "fst (Side_calculate_flux ?g 2 (VNum 10)) = Inr (1728 + sum_list [])"
      by simp
    ultimately show ?thesis by (simp add: prod_eq_iff)
  qed
  from one two show ?thesis by simp
qed

end
